theory Spec2Isabelle
  imports
    Main
    "HOL-Library.Char_ord"
    "HOL-Library.List_Lexorder"
    "HOL-Library.Multiset"
    "HOL-Library.AList"
begin

unbundle bit_operations_syntax

section \<open>dosocs2 utility functions (\<open>dosocs2/util.py\<close>)\<close>

text \<open>
  A Python \<open>str\<close> is a \<open>string\<close>: every \<open>char\<close> stands for one character with a code
  point below 256, so \<open>length\<close> counts characters as Python does, and the UTF-8 encoding
  of an ASCII string is the string itself. Python's order on \<open>str\<close> (by code point,
  lexicographic) is the order of \<open>HOL-Library.List_Lexorder\<close> over \<open>HOL-Library.Char_ord\<close>.
\<close>

type_synonym path = string

subsection \<open>\<open>hashlib.sha1(...).hexdigest()\<close>\<close>

text \<open>
  The standard library's SHA-1 (FIPS 180-4), on 32-bit values kept as \<open>int\<close> with the
  reduction modulo \<open>2 ^ 32\<close> written out.
\<close>

definition w32 :: "int \<Rightarrow> int" where
  "w32 x = x mod 2 ^ 32"

definition rotl :: "nat \<Rightarrow> int \<Rightarrow> int" where
  "rotl n x = w32 (push_bit n x) OR drop_bit (32 - n) x"

definition not32 :: "int \<Rightarrow> int" where
  "not32 x = 0xFFFFFFFF - x"

definition be_bytes64 :: "int \<Rightarrow> int list" where
  "be_bytes64 n = map (\<lambda>i. drop_bit (8 * i) n mod 256) [7, 6, 5, 4, 3, 2, 1, 0]"

definition sha_pad :: "int list \<Rightarrow> int list" where
  "sha_pad bs = bs @ [0x80] @ replicate ((119 - length bs mod 64) mod 64) 0
                 @ be_bytes64 (8 * int (length bs))"

fun be_words :: "int list \<Rightarrow> int list" where
  "be_words (a # b # c # d # r) = (((a * 256 + b) * 256 + c) * 256 + d) # be_words r"
| "be_words _ = []"

fun sha1_extend :: "nat \<Rightarrow> int list \<Rightarrow> int list" where
  "sha1_extend 0 ws = ws"
| "sha1_extend (Suc n) ws = sha1_extend n
     (ws @ [rotl 1 (ws ! (length ws - 3) XOR ws ! (length ws - 8)
                    XOR ws ! (length ws - 14) XOR ws ! (length ws - 16))])"

type_synonym sha1_state = "int \<times> int \<times> int \<times> int \<times> int"

definition sha1_f :: "nat \<Rightarrow> int \<Rightarrow> int \<Rightarrow> int \<Rightarrow> int" where
  "sha1_f t b c d =
     (if t < 20 then (b AND c) OR (not32 b AND d)
      else if t < 40 then b XOR c XOR d
      else if t < 60 then (b AND c) OR (b AND d) OR (c AND d)
      else b XOR c XOR d)"

definition sha1_k :: "nat \<Rightarrow> int" where
  "sha1_k t = (if t < 20 then 0x5A827999 else if t < 40 then 0x6ED9EBA1
               else if t < 60 then 0x8F1BBCDC else 0xCA62C1D6)"

fun sha1_rounds :: "nat \<Rightarrow> int list \<Rightarrow> sha1_state \<Rightarrow> sha1_state" where
  "sha1_rounds t [] s = s"
| "sha1_rounds t (w # ws) (a, b, c, d, e) =
     sha1_rounds (Suc t) ws
       (w32 (rotl 5 a + sha1_f t b c d + e + sha1_k t + w), a, rotl 30 b, c, d)"

definition sha1_block :: "sha1_state \<Rightarrow> int list \<Rightarrow> sha1_state" where
  "sha1_block h blk =
     (case h of (h0, h1, h2, h3, h4) \<Rightarrow>
        (case sha1_rounds 0 (sha1_extend 64 blk) h of (a, b, c, d, e) \<Rightarrow>
           (w32 (h0 + a), w32 (h1 + b), w32 (h2 + c), w32 (h3 + d), w32 (h4 + e))))"

fun sha1_blocks :: "nat \<Rightarrow> sha1_state \<Rightarrow> int list \<Rightarrow> sha1_state" where
  "sha1_blocks 0 h ws = h"
| "sha1_blocks (Suc n) h ws = sha1_blocks n (sha1_block h (take 16 ws)) (drop 16 ws)"

definition hexdigit :: "int \<Rightarrow> char" where
  "hexdigit n = ''0123456789abcdef'' ! nat n"

definition hex32 :: "int \<Rightarrow> string" where
  "hex32 w = map (\<lambda>i. hexdigit (drop_bit (4 * i) w mod 16)) [7, 6, 5, 4, 3, 2, 1, 0]"

definition sha1_hex :: "string \<Rightarrow> string" where
  "sha1_hex s =
     (let ws = be_words (sha_pad (map of_char s));
          h = sha1_blocks (length ws div 16)
                (0x67452301, 0xEFCDAB89, 0x98BADCFE, 0x10325476, 0xC3D2E1F0) ws
      in case h of (a, b, c, d, e) \<Rightarrow> hex32 a @ hex32 b @ hex32 c @ hex32 d @ hex32 e)"

subsection \<open>\<open>gen_ver_code\<close>\<close>

text \<open>
  \<^verbatim>\<open>
  def gen_ver_code(hashes, excluded_hashes=None):
      if excluded_hashes is None:
          excluded_hashes = set()
      hashes_less_excluded = (h for h in hashes if h not in excluded_hashes)
      hashblob = ''.join(sorted(hashes_less_excluded))
      return hashlib.sha1(hashblob.encode('utf-8')).hexdigest()
  \<close>
  The iterable \<open>hashes\<close> is the list of its elements in iteration order; the optional
  argument is an \<open>option\<close>.
\<close>

definition gen_ver_code :: "string list \<Rightarrow> string set option \<Rightarrow> string" where
  "gen_ver_code hashes excluded_hashes =
     (let excluded = (case excluded_hashes of None \<Rightarrow> {} | Some e \<Rightarrow> e);
          hashes_less_excluded = filter (\<lambda>h. h \<notin> excluded) hashes;
          hashblob = concat (sort hashes_less_excluded)
      in sha1_hex hashblob)"

subsection \<open>\<open>hashlib.sha256(...).hexdigest()\<close>\<close>

text \<open>The standard library's SHA-256 (FIPS 180-4), in the same style.\<close>

definition rotr :: "nat \<Rightarrow> int \<Rightarrow> int" where
  "rotr n x = rotl (32 - n) x"

definition sha256_K :: "int list" where
  "sha256_K =
    [0x428A2F98, 0x71374491, 0xB5C0FBCF, 0xE9B5DBA5, 0x3956C25B, 0x59F111F1, 0x923F82A4, 0xAB1C5ED5,
     0xD807AA98, 0x12835B01, 0x243185BE, 0x550C7DC3, 0x72BE5D74, 0x80DEB1FE, 0x9BDC06A7, 0xC19BF174,
     0xE49B69C1, 0xEFBE4786, 0x0FC19DC6, 0x240CA1CC, 0x2DE92C6F, 0x4A7484AA, 0x5CB0A9DC, 0x76F988DA,
     0x983E5152, 0xA831C66D, 0xB00327C8, 0xBF597FC7, 0xC6E00BF3, 0xD5A79147, 0x06CA6351, 0x14292967,
     0x27B70A85, 0x2E1B2138, 0x4D2C6DFC, 0x53380D13, 0x650A7354, 0x766A0ABB, 0x81C2C92E, 0x92722C85,
     0xA2BFE8A1, 0xA81A664B, 0xC24B8B70, 0xC76C51A3, 0xD192E819, 0xD6990624, 0xF40E3585, 0x106AA070,
     0x19A4C116, 0x1E376C08, 0x2748774C, 0x34B0BCB5, 0x391C0CB3, 0x4ED8AA4A, 0x5B9CCA4F, 0x682E6FF3,
     0x748F82EE, 0x78A5636F, 0x84C87814, 0x8CC70208, 0x90BEFFFA, 0xA4506CEB, 0xBEF9A3F7, 0xC67178F2]"

definition sha256_s0 :: "int \<Rightarrow> int" where
  "sha256_s0 x = rotr 7 x XOR rotr 18 x XOR drop_bit 3 x"

definition sha256_s1 :: "int \<Rightarrow> int" where
  "sha256_s1 x = rotr 17 x XOR rotr 19 x XOR drop_bit 10 x"

definition sha256_S0 :: "int \<Rightarrow> int" where
  "sha256_S0 x = rotr 2 x XOR rotr 13 x XOR rotr 22 x"

definition sha256_S1 :: "int \<Rightarrow> int" where
  "sha256_S1 x = rotr 6 x XOR rotr 11 x XOR rotr 25 x"

fun sha256_extend :: "nat \<Rightarrow> int list \<Rightarrow> int list" where
  "sha256_extend 0 ws = ws"
| "sha256_extend (Suc n) ws = sha256_extend n
     (ws @ [w32 (sha256_s1 (ws ! (length ws - 2)) + ws ! (length ws - 7)
                 + sha256_s0 (ws ! (length ws - 15)) + ws ! (length ws - 16))])"

type_synonym sha256_state = "int \<times> int \<times> int \<times> int \<times> int \<times> int \<times> int \<times> int"

fun sha256_rounds :: "(int \<times> int) list \<Rightarrow> sha256_state \<Rightarrow> sha256_state" where
  "sha256_rounds [] s = s"
| "sha256_rounds ((k, w) # kws) (a, b, c, d, e, f, g, h) =
     (let t1 = h + sha256_S1 e + ((e AND f) XOR (not32 e AND g)) + k + w;
          t2 = sha256_S0 a + ((a AND b) XOR (a AND c) XOR (b AND c))
      in sha256_rounds kws (w32 (t1 + t2), a, b, c, w32 (d + t1), e, f, g))"

definition sha256_block :: "sha256_state \<Rightarrow> int list \<Rightarrow> sha256_state" where
  "sha256_block hs blk =
     (case hs of (h0, h1, h2, h3, h4, h5, h6, h7) \<Rightarrow>
        (case sha256_rounds (zip sha256_K (sha256_extend 48 blk)) hs of
           (a, b, c, d, e, f, g, h) \<Rightarrow>
             (w32 (h0 + a), w32 (h1 + b), w32 (h2 + c), w32 (h3 + d),
              w32 (h4 + e), w32 (h5 + f), w32 (h6 + g), w32 (h7 + h))))"

fun sha256_blocks :: "nat \<Rightarrow> sha256_state \<Rightarrow> int list \<Rightarrow> sha256_state" where
  "sha256_blocks 0 h ws = h"
| "sha256_blocks (Suc n) h ws = sha256_blocks n (sha256_block h (take 16 ws)) (drop 16 ws)"

definition sha256_hex :: "string \<Rightarrow> string" where
  "sha256_hex s =
     (let ws = be_words (sha_pad (map of_char s));
          hs = sha256_blocks (length ws div 16)
                 (0x6A09E667, 0xBB67AE85, 0x3C6EF372, 0xA54FF53A,
                  0x510E527F, 0x9B05688C, 0x1F83D9AB, 0x5BE0CD19) ws
      in case hs of (a, b, c, d, e, f, g, h) \<Rightarrow>
           hex32 a @ hex32 b @ hex32 c @ hex32 d @ hex32 e @ hex32 f @ hex32 g @ hex32 h)"

subsection \<open>Errors\<close>

text \<open>The exceptions the functions raise or let through, each with its message.\<close>

datatype error =
    OSError string
  | TypeError string
  | Exception string
  | UnboundLocalError string

subsection \<open>\<open>os.path\<close> on POSIX\<close>

text \<open>
  The standard library's \<open>posixpath\<close> functions the code calls: \<open>str.split('/')\<close>,
  \<open>'/'.join\<close>, \<open>join\<close> (of two arguments), \<open>normpath\<close>, \<open>abspath\<close> (with the working
  directory as an argument), \<open>commonprefix\<close> (of a list of two), \<open>relpath\<close>,
  \<open>basename\<close> and \<open>dirname\<close>.
\<close>

fun split_sep :: "string \<Rightarrow> string list" where
  "split_sep [] = [[]]"
| "split_sep (c # cs) =
     (if c = CHR ''/'' then [] # split_sep cs
      else (case split_sep cs of [] \<Rightarrow> [[c]] | w # ws \<Rightarrow> (c # w) # ws))"

fun str_join :: "string \<Rightarrow> string list \<Rightarrow> string" where
  "str_join sep [] = []"
| "str_join sep [x] = x"
| "str_join sep (x # y # r) = x @ sep @ str_join sep (y # r)"

definition startswith :: "string \<Rightarrow> string \<Rightarrow> bool" where
  "startswith s pre = (take (length pre) s = pre)"

definition os_path_join :: "path \<Rightarrow> path \<Rightarrow> path" where
  "os_path_join a b =
     (if startswith b ''/'' then b
      else if a = [] \<or> last a = CHR ''/'' then a @ b
      else a @ ''/'' @ b)"

definition normpath_step :: "nat \<Rightarrow> string list \<Rightarrow> string \<Rightarrow> string list" where
  "normpath_step initial_slashes new_comps part =
     (if part = [] \<or> part = ''.'' then new_comps
      else if part \<noteq> ''..'' \<or> (initial_slashes = 0 \<and> new_comps = [])
              \<or> (new_comps \<noteq> [] \<and> last new_comps = ''..'')
           then new_comps @ [part]
      else if new_comps \<noteq> [] then butlast new_comps
      else new_comps)"

definition os_path_normpath :: "path \<Rightarrow> path" where
  "os_path_normpath path =
     (if path = [] then ''.''
      else
        let initial_slashes =
              (if startswith path ''/''
               then (if startswith path ''//'' \<and> \<not> startswith path ''///'' then 2 else 1)
               else 0);
            comps = foldl (normpath_step initial_slashes) [] (split_sep path);
            path' = replicate initial_slashes CHR ''/'' @ str_join ''/'' comps
        in if path' = [] then ''.'' else path')"

definition os_path_abspath :: "path \<Rightarrow> path \<Rightarrow> path" where
  "os_path_abspath cwd path =
     os_path_normpath (if startswith path ''/'' then path else os_path_join cwd path)"

fun common_prefix :: "'a list \<Rightarrow> 'a list \<Rightarrow> 'a list" where
  "common_prefix (x # xs) (y # ys) = (if x = y then x # common_prefix xs ys else [])"
| "common_prefix _ _ = []"

definition os_path_commonprefix :: "'a::linorder list \<Rightarrow> 'a list \<Rightarrow> 'a list" where
  "os_path_commonprefix a b = (let s1 = min a b; s2 = max a b in common_prefix s1 s2)"

definition os_path_relpath :: "path \<Rightarrow> path \<Rightarrow> path \<Rightarrow> path" where
  "os_path_relpath cwd path start =
     (let start_list = filter (\<lambda>x. x \<noteq> []) (split_sep (os_path_abspath cwd start));
          path_list = filter (\<lambda>x. x \<noteq> []) (split_sep (os_path_abspath cwd path));
          i = length (os_path_commonprefix start_list path_list);
          rel_list = replicate (length start_list - i) ''..'' @ drop i path_list
      in case rel_list of [] \<Rightarrow> ''.'' | x # xs \<Rightarrow> foldl os_path_join x xs)"

definition os_path_basename :: "path \<Rightarrow> string" where
  "os_path_basename p = rev (takeWhile (\<lambda>c. c \<noteq> CHR ''/'') (rev p))"

definition os_path_dirname :: "path \<Rightarrow> path" where
  "os_path_dirname p =
     (let head = take (length p - length (os_path_basename p)) p
      in if head \<noteq> [] \<and> head \<noteq> replicate (length head) CHR ''/''
         then rev (dropWhile (\<lambda>c. c = CHR ''/'') (rev head))
         else head)"

definition slice :: "nat \<Rightarrow> nat \<Rightarrow> string \<Rightarrow> string" where
  "slice i j s = take (j - i) (drop i s)"

subsection \<open>\<open>archive_type\<close>\<close>

text \<open>
  What lies outside the program is a record: the working directory, the outcomes of
  \<open>tarfile.is_tarfile\<close> and \<open>zipfile.is_zipfile\<close>, the members recorded in an archive,
  the directory \<open>tempfile.mkdtemp\<close> makes (or its failure), the two library extractors
  as functions on the file system, and what a failed \<open>shutil.rmtree\<close> has left.

  \<open>tarfile.is_tarfile\<close> catches \<open>TarError\<close> only: on a path it cannot open (a missing
  file, a directory) the \<open>OSError\<close> of \<open>open\<close> leaves it, so its outcome is an exception
  or an answer. \<open>zipfile.is_zipfile\<close> catches \<open>OSError\<close> and answers \<open>False\<close> there, so its
  outcome is an answer.

  The file system is a finite table from paths to nodes. A directory carries whether
  the process may write to it; the process is not privileged, so the permission counts.
  A member of an archive has its recorded name, its bytes, and its kind: a regular file,
  or a directory with its write permission.
\<close>

datatype node = Dir bool | File string

type_synonym filesystem = "(path \<times> node) list"

datatype member_kind = RegularFile | Directory bool

record member =
  name :: string
  payload :: string
  kind :: member_kind

record os_env =
  cwd :: path

record world = os_env +
  is_tarfile :: "path \<Rightarrow> error + bool"
  is_zipfile :: "path \<Rightarrow> bool"
  getmembers :: "path \<Rightarrow> member list"
  infolist :: "path \<Rightarrow> member list"
  mkdtemp :: "error + path"
  tar_extractall :: "path \<Rightarrow> member list \<Rightarrow> filesystem \<Rightarrow> error option \<times> filesystem"
  zip_extractall :: "path \<Rightarrow> member list \<Rightarrow> filesystem \<Rightarrow> error option \<times> filesystem"
  rmtree_leaves :: "path \<Rightarrow> filesystem \<Rightarrow> filesystem"

text \<open>
  \<^verbatim>\<open>
  def archive_type(path):
      if tarfile.is_tarfile(path):
          return 'tar'
      elif zipfile.is_zipfile(path):
          return 'zip'
      else:
          return None
  \<close>
  The function has no handler: an exception of the tar check leaves it.
\<close>

definition archive_type :: "world \<Rightarrow> path \<Rightarrow> error + string option" where
  "archive_type w path =
     (case is_tarfile w path of
        Inl e \<Rightarrow> Inl e
      | Inr tar \<Rightarrow>
          if tar then Inr (Some ''tar'')
          else if is_zipfile w path then Inr (Some ''zip'')
          else Inr None)"

subsection \<open>\<open>tempextract\<close>\<close>

text \<open>
  The state is the file system and the log of the calls the function makes that change
  it.

  \<open>tempfile.mkdtemp\<close> makes a new directory, writable and empty. \<open>shutil.rmtree d\<close> is
  called with no error handler, so it stops at its first failure and raises: when \<open>d\<close> is
  not there, and when an entry below \<open>d\<close> lies directly in a directory the process may
  not write to (the entry cannot be unlinked). After such a failure the root is still
  there; which of the other entries the scan had removed before depends on its order,
  and is what \<open>rmtree_leaves\<close> of the world says. When nothing fails, nothing at or below
  \<open>d\<close> is left.
\<close>

datatype event = Mkdtemp path | Extractall path | Rmtree path

record state =
  files :: filesystem
  events :: "event list"

definition at_or_below :: "path \<Rightarrow> path \<Rightarrow> bool" where
  "at_or_below d p = (p = d \<or> startswith p (d @ ''/''))"

definition remove_tree :: "path \<Rightarrow> filesystem \<Rightarrow> filesystem" where
  "remove_tree d fs = filter (\<lambda>(p, n). \<not> at_or_below d p) fs"

definition rmtree_denied :: "path \<Rightarrow> filesystem \<Rightarrow> bool" where
  "rmtree_denied d fs =
     list_ex (\<lambda>(p, n). p \<noteq> d \<and> at_or_below d p
                       \<and> map_of fs (os_path_dirname p) = Some (Dir False)) fs"

definition rmtree :: "world \<Rightarrow> path \<Rightarrow> filesystem \<Rightarrow> error option \<times> filesystem" where
  "rmtree w d fs =
     (if map_of fs d = None then (Some (OSError ''No such file or directory''), fs)
      else if rmtree_denied d fs then (Some (OSError ''Permission denied''), rmtree_leaves w d fs)
      else (None, remove_tree d fs))"

text \<open>
  \<^verbatim>\<open>
  def is_within_directory(directory, target):
      abs_directory = os.path.abspath(directory)
      abs_target = os.path.abspath(target)
      prefix = os.path.commonprefix([abs_directory, abs_target])
      return prefix == abs_directory
  \<close>
\<close>

definition is_within_directory :: "path \<Rightarrow> path \<Rightarrow> path \<Rightarrow> bool" where
  "is_within_directory wd directory target =
     (let abs_directory = os_path_abspath wd directory;
          abs_target = os_path_abspath wd target;
          prefix = os_path_commonprefix abs_directory abs_target
      in prefix = abs_directory)"

text \<open>
  \<^verbatim>\<open>
  def safe_extract(tar, path=".", members=None, *, numeric_owner=False):
      for member in tar.getmembers():
          member_path = os.path.join(path, member.name)
          if not is_within_directory(path, member_path):
              raise Exception("Attempted Path Traversal in Tar File")
      tar.extractall(path, members, numeric_owner=numeric_owner)
  \<close>
  \<open>check_members\<close> is the loop: the exception of the first member that fails.
\<close>

fun check_members :: "path \<Rightarrow> path \<Rightarrow> member list \<Rightarrow> error option" where
  "check_members wd path [] = None"
| "check_members wd path (m # ms) =
     (let member_path = os_path_join path (name m)
      in if \<not> is_within_directory wd path member_path
         then Some (Exception ''Attempted Path Traversal in Tar File'')
         else check_members wd path ms)"

definition safe_extract :: "world \<Rightarrow> member list \<Rightarrow> path \<Rightarrow> state \<Rightarrow> error option \<times> state" where
  "safe_extract w tar path s =
     (case check_members (cwd w) path tar of
        Some e \<Rightarrow> (Some e, s)
      | None \<Rightarrow>
          (case tar_extractall w path tar (files s) of
             (r, fs) \<Rightarrow> (r, s\<lparr>files := fs, events := events s @ [Extractall path]\<rparr>)))"

text \<open>
  \<^verbatim>\<open>
  @contextmanager
  def tempextract(path):
      try:
          tempdir = tempfile.mkdtemp()
          ar_type = archive_type(path)
          if ar_type == 'tar':
              with tarfile.open(path) as tf:
                  relpaths = tf.getnames()
                  ...
                  safe_extract(tf, path=tempdir)
              yield (tempdir, relpaths)
          elif ar_type == 'zip':
              with zipfile.ZipFile(path) as zf:
                  relpaths = zf.namelist()
                  zf.extractall(path=tempdir)
              yield (tempdir, relpaths)
          else:
              raise TypeError('{} is not an archive file'.format(path))
      finally:
          shutil.rmtree(tempdir)
  \<close>
  \<open>tempextract_try\<close> is the \<open>try\<close> block up to the \<open>yield\<close>: its outcome (the exception,
  or the pair it yields), the binding of the local \<open>tempdir\<close> (\<open>None\<close> while unbound)
  and the state. \<open>tempextract_finally\<close> is the \<open>finally\<close> block. \<open>tempextract\<close> is the
  whole \<open>with tempextract(path) as v: body v\<close>: the body runs on the file system at the
  \<open>yield\<close> and may raise; an exception of the \<open>finally\<close> block replaces an earlier one.
\<close>

definition tempextract_try ::
  "world \<Rightarrow> path \<Rightarrow> state \<Rightarrow> (error + path \<times> string list) \<times> path option \<times> state" where
  "tempextract_try w path s =
     (case mkdtemp w of
        Inl e \<Rightarrow> (Inl e, None, s)
      | Inr tempdir \<Rightarrow>
          (let s1 = s\<lparr>files := (tempdir, Dir True) # remove_tree tempdir (files s),
                      events := events s @ [Mkdtemp tempdir]\<rparr>
           in case archive_type w path of
                Inl e \<Rightarrow> (Inl e, Some tempdir, s1)
              | Inr ar_type \<Rightarrow>
                  if ar_type = Some ''tar'' then
                    (let relpaths = map name (getmembers w path)
                     in case safe_extract w (getmembers w path) tempdir s1 of
                          (Some e, s2) \<Rightarrow> (Inl e, Some tempdir, s2)
                        | (None, s2) \<Rightarrow> (Inr (tempdir, relpaths), Some tempdir, s2))
                  else if ar_type = Some ''zip'' then
                    (let relpaths = map name (infolist w path)
                     in case zip_extractall w tempdir (infolist w path) (files s1) of
                          (r, fs) \<Rightarrow>
                            (let s2 = s1\<lparr>files := fs,
                                        events := events s1 @ [Extractall tempdir]\<rparr>
                             in case r of
                                  Some e \<Rightarrow> (Inl e, Some tempdir, s2)
                                | None \<Rightarrow> (Inr (tempdir, relpaths), Some tempdir, s2)))
                  else (Inl (TypeError (path @ '' is not an archive file'')), Some tempdir, s1)))"

definition tempextract_finally ::
  "world \<Rightarrow> path option \<Rightarrow> state \<Rightarrow> error option \<times> state" where
  "tempextract_finally w tempdir s =
     (case tempdir of
        None \<Rightarrow> (Some (UnboundLocalError ''tempdir''), s)
      | Some d \<Rightarrow>
          (case rmtree w d (files s) of
             (r, fs) \<Rightarrow> (r, s\<lparr>files := fs, events := events s @ [Rmtree d]\<rparr>)))"

definition tempextract ::
  "world \<Rightarrow> path \<Rightarrow> (path \<times> string list \<Rightarrow> filesystem \<Rightarrow> (error + 'a) \<times> filesystem)
     \<Rightarrow> state \<Rightarrow> (error + 'a) \<times> state" where
  "tempextract w path body s =
     (case tempextract_try w path s of
        (Inl e, tempdir, s1) \<Rightarrow>
          (case tempextract_finally w tempdir s1 of
             (Some e', s2) \<Rightarrow> (Inl e', s2)
           | (None, s2) \<Rightarrow> (Inl e, s2))
      | (Inr v, tempdir, s1) \<Rightarrow>
          (case body v (files s1) of
             (r, fs) \<Rightarrow>
               (case tempextract_finally w tempdir (s1\<lparr>files := fs\<rparr>) of
                  (Some e', s2) \<Rightarrow> (Inl e', s2)
                | (None, s2) \<Rightarrow> (r, s2))))"

text \<open>
  \<open>before_finally\<close> is the file system on which the \<open>finally\<close> block starts: the one the
  \<open>try\<close> block left when it raised, the one the body left otherwise.
\<close>

definition before_finally ::
  "world \<Rightarrow> path \<Rightarrow> (path \<times> string list \<Rightarrow> filesystem \<Rightarrow> (error + 'a) \<times> filesystem)
     \<Rightarrow> state \<Rightarrow> filesystem" where
  "before_finally w path body s =
     (case tempextract_try w path s of
        (Inl e, tempdir, s1) \<Rightarrow> files s1
      | (Inr v, tempdir, s1) \<Rightarrow> snd (body v (files s1)))"

text \<open>
  The library extractors, for concrete runs. \<open>tarfile.extractall\<close> (without an
  extraction filter) puts each member at the target directory joined with the recorded
  name, a directory with the permission recorded for it; \<open>zipfile.extractall\<close> first
  drops the empty, \<open>.\<close> and \<open>..\<close> components of the recorded name, and restores no
  permissions.
\<close>

definition tarfile_extractall ::
  "path \<Rightarrow> member list \<Rightarrow> filesystem \<Rightarrow> error option \<times> filesystem" where
  "tarfile_extractall path ms fs =
     (None, foldl (\<lambda>f m. AList.update (os_path_normpath (os_path_join path (name m)))
                            (case kind m of RegularFile \<Rightarrow> File (payload m)
                                          | Directory writable \<Rightarrow> Dir writable) f)
              fs ms)"

definition zipfile_arcname :: "string \<Rightarrow> string" where
  "zipfile_arcname filename =
     str_join ''/'' (filter (\<lambda>x. x \<noteq> [] \<and> x \<noteq> ''.'' \<and> x \<noteq> ''..'') (split_sep filename))"

definition zipfile_extractall ::
  "path \<Rightarrow> member list \<Rightarrow> filesystem \<Rightarrow> error option \<times> filesystem" where
  "zipfile_extractall path ms fs =
     (None, foldl (\<lambda>f m. AList.update
                            (os_path_normpath (os_path_join path (zipfile_arcname (name m))))
                            (case kind m of RegularFile \<Rightarrow> File (payload m)
                                          | Directory writable \<Rightarrow> Dir True) f)
              fs ms)"

text \<open>
  In the worlds of the runs below a failed \<open>rmtree\<close> has removed nothing: the runs that
  fail have one entry to scan, the one that cannot be removed.
\<close>

definition demo_world :: "bool \<Rightarrow> bool \<Rightarrow> member list \<Rightarrow> world" where
  "demo_world tar_ok zip_ok ms =
     \<lparr>cwd = ''/work'',
      is_tarfile = (\<lambda>_. Inr tar_ok), is_zipfile = (\<lambda>_. zip_ok),
      getmembers = (\<lambda>_. ms), infolist = (\<lambda>_. ms),
      mkdtemp = Inr ''/tmp/tmpk3v9xq1a'',
      tar_extractall = tarfile_extractall, zip_extractall = zipfile_extractall,
      rmtree_leaves = (\<lambda>d fs. fs)\<rparr>"

definition demo_state :: state where
  "demo_state = \<lparr>files = [(''/tmp'', Dir True)], events = []\<rparr>"

subsection \<open>\<open>file_name_for_id\<close> and \<open>gen_id_string\<close>\<close>

text \<open>
  \<^verbatim>\<open>
  def file_name_for_id(file_name):
      new1 = os.path.basename(file_name)
      # strip illegal chars, limit to 20 chars
      return re.sub(r'[^A-Za-z0-9]', '_', new1)[:20]

  def gen_id_string(prefix='element', file_name=None, sha256=None):
      uuid4 = str(uuid.uuid4())
      if sha256 is None:
          sha256part = uuid4[24:28]
      else:
          sha256part = sha256[:4]
      suffix = sha256part + '-' + uuid4[:8]
      new_file_name = file_name_for_id(file_name or uuid4[9:39])
      pieces = 'SPDXRef', prefix, new_file_name, suffix
      return '-'.join(pieces)
  \<close>
  The random string \<open>str(uuid.uuid4())\<close> is the first argument of the model.
\<close>

definition alnum :: "char \<Rightarrow> bool" where
  "alnum c = (c \<in> set ''ABCDEFGHIJKLMNOPQRSTUVWXYZabcdefghijklmnopqrstuvwxyz0123456789'')"

definition file_name_for_id :: "string \<Rightarrow> string" where
  "file_name_for_id file_name =
     (let new1 = os_path_basename file_name
      in take 20 (map (\<lambda>c. if alnum c then c else CHR ''_'') new1))"

definition gen_id_string :: "string \<Rightarrow> string \<Rightarrow> string option \<Rightarrow> string option \<Rightarrow> string" where
  "gen_id_string uuid4 prefix file_name sha256 =
     (let sha256part = (case sha256 of None \<Rightarrow> slice 24 28 uuid4 | Some h \<Rightarrow> take 4 h);
          suffix = sha256part @ ''-'' @ take 8 uuid4;
          new_file_name = file_name_for_id
            (case file_name of
               None \<Rightarrow> slice 9 39 uuid4
             | Some f \<Rightarrow> if f = [] then slice 9 39 uuid4 else f);
          pieces = [''SPDXRef'', prefix, new_file_name, suffix]
      in str_join ''-'' pieces)"

subsection \<open>\<open>allpaths\<close>, \<open>sha256\<close>, \<open>abs_to_rel\<close> and \<open>get_dir_hashes\<close>\<close>

text \<open>
  The directory tree is a record: what \<open>os.walk\<close> yields for a root (in the order it
  yields it), \<open>os.path.isfile\<close>, and what reading a file gives (its bytes, or the
  exception of \<open>open\<close>).
  \<^verbatim>\<open>
  def sha256(filename):
      with open(filename, 'rb') as f:
          lines = f.read()
      checksum = hashlib.sha256(lines).hexdigest()
      return checksum

  def allpaths(path):
      for (root, dirnames, filenames) in os.walk(path):
          for dirname in dirnames:
              yield os.path.join(root, dirname)
          for filename in filenames:
              yield os.path.join(root, filename)

  def abs_to_rel(startpath, path):
      return os.path.join(os.curdir, os.path.relpath(path, start=startpath))
  \<close>
\<close>

record dir_env = os_env +
  os_walk :: "path \<Rightarrow> (path \<times> string list \<times> string list) list"
  isfile :: "path \<Rightarrow> bool"
  read_file :: "path \<Rightarrow> error + string"

definition sha256 :: "dir_env \<Rightarrow> path \<Rightarrow> error + string" where
  "sha256 env filename =
     (case read_file env filename of
        Inl e \<Rightarrow> Inl e
      | Inr lines \<Rightarrow> Inr (sha256_hex lines))"

definition allpaths :: "dir_env \<Rightarrow> path \<Rightarrow> path list" where
  "allpaths env path =
     concat (map (\<lambda>(root, dirnames, filenames).
                    map (os_path_join root) dirnames @ map (os_path_join root) filenames)
                 (os_walk env path))"

definition abs_to_rel :: "path \<Rightarrow> path \<Rightarrow> path \<Rightarrow> path" where
  "abs_to_rel wd startpath path = os_path_join ''.'' (os_path_relpath wd path startpath)"

text \<open>
  \<^verbatim>\<open>
  def get_dir_hashes(path, excluded_hashes=None):
      if excluded_hashes is None:
          excluded_hashes = set()
      listing = list(sorted(allpaths(path)))
      hashes = {
          abspath: sha256(abspath)
          for abspath in listing
          if os.path.isfile(abspath)
          }
      relative_listing = (
          abs_to_rel(path, abspath)
          for abspath in listing
          if os.path.isfile(abspath)
          and hashes.get(abspath) not in excluded_hashes
          )
      rel_listing_hashes = (
          hashlib.sha256((relpath).encode('utf-8')).hexdigest()
          for relpath in sorted(relative_listing)
          )
      return (gen_ver_code(hashes.values(), excluded_hashes),
              hashes,
              gen_ver_code(rel_listing_hashes)
              )
  \<close>
  The dict is an association list in insertion order (\<open>AList.update\<close> stores a key as a
  dict does: in place when the key is there, at the end otherwise), so that
  \<open>hashes.values()\<close> is \<open>map snd\<close>. \<open>hashes_comprehension\<close> is the dict comprehension,
  which stops at the first file that cannot be read.
\<close>

fun hashes_comprehension ::
  "dir_env \<Rightarrow> path list \<Rightarrow> (path \<times> string) list \<Rightarrow> error + (path \<times> string) list" where
  "hashes_comprehension env [] hashes = Inr hashes"
| "hashes_comprehension env (abspath # listing) hashes =
     (if isfile env abspath then
        (case sha256 env abspath of
           Inl e \<Rightarrow> Inl e
         | Inr h \<Rightarrow> hashes_comprehension env listing (AList.update abspath h hashes))
      else hashes_comprehension env listing hashes)"

definition get_dir_hashes ::
  "dir_env \<Rightarrow> path \<Rightarrow> string set option
     \<Rightarrow> error + (string \<times> (path \<times> string) list \<times> string)" where
  "get_dir_hashes env path excluded_hashes =
     (let excluded = (case excluded_hashes of None \<Rightarrow> {} | Some e \<Rightarrow> e);
          listing = sort (allpaths env path)
      in case hashes_comprehension env listing [] of
           Inl e \<Rightarrow> Inl e
         | Inr hashes \<Rightarrow>
             (let relative_listing =
                    map (abs_to_rel (cwd env) path)
                      (filter (\<lambda>abspath. isfile env abspath \<and>
                                 (case map_of hashes abspath of
                                    None \<Rightarrow> True
                                  | Some h \<Rightarrow> h \<notin> excluded))
                         listing);
                  rel_listing_hashes = map sha256_hex (sort relative_listing)
              in Inr (gen_ver_code (map snd hashes) (Some excluded),
                      hashes,
                      gen_ver_code rel_listing_hashes None)))"

text \<open>A small tree for concrete runs: three regular files and a directory under \<open>/pkg\<close>.\<close>

definition demo_tree :: "(path \<times> string list \<times> string list) list \<Rightarrow> dir_env" where
  "demo_tree walk =
     \<lparr>cwd = ''/work'',
      os_walk = (\<lambda>_. walk),
      isfile = (\<lambda>p. p \<in> {''/pkg/a.txt'', ''/pkg/c.txt'', ''/pkg/src/b.c''}),
      read_file = (\<lambda>p. if p = ''/pkg/a.txt'' \<or> p = ''/pkg/c.txt'' then Inr ''abc''
                        else if p = ''/pkg/src/b.c'' then Inr []
                        else Inl (OSError ''Is a directory''))\<rparr>"

section \<open>Properties\<close>

subsection \<open>SHA-1 test vectors\<close>

lemma sha1_hex_empty: "sha1_hex [] = ''da39a3ee5e6b4b0d3255bfef95601890afd80709''"
  by code_simp

lemma sha1_hex_abc: "sha1_hex ''abc'' = ''a9993e364706816aba3e25717850c26c9cd0d89d''"
  by code_simp

lemma sha1_hex_two_blocks:
  "sha1_hex ''abcdbcdecdefdefgefghfghighijhijkijkljklmklmnlmnomnopnopq''
     = ''84983e441c3bd26ebaae4aa1f95129e5e54670f1''"
  by code_simp

subsection \<open>SHA-256 test vectors\<close>

lemma sha256_hex_empty:
  "sha256_hex [] = ''e3b0c44298fc1c149afbf4c8996fb92427ae41e4649b934ca495991b7852b855''"
  by code_simp

lemma sha256_hex_abc:
  "sha256_hex ''abc'' = ''ba7816bf8f01cfea414140de5dae2223b00361a396177a9cb410ff61f20015ad''"
  by code_simp

subsection \<open>Verification codes\<close>

lemma gen_ver_code_unfold:
  "gen_ver_code hs E =
     sha1_hex (concat (sort (filter (\<lambda>h. h \<notin> (case E of None \<Rightarrow> {} | Some e \<Rightarrow> e)) hs)))"
  by (simp add: gen_ver_code_def)

lemma sort_filter_mset:
  fixes hs hs' :: "string list"
  assumes "mset hs = mset hs'"
  shows "sort (filter P hs) = sort (filter P hs')"
proof -
  have "mset (filter P hs) = mset (filter P hs')"
    using assms by (metis mset_filter)
  then have "mset (sort (filter P hs)) = mset (sort (filter P hs'))"
    by simp
  then show ?thesis
    by (intro properties_for_sort) simp_all
qed

text \<open>
  C8: for the empty collection of hashes and any exclusion set, \<open>gen_ver_code\<close> returns
  the SHA-1 digest of the empty string, the fixed hex string
  \<open>da39a3ee5e6b4b0d3255bfef95601890afd80709\<close>; the function has no error result.
\<close>

theorem gen_ver_code_empty:
  "gen_ver_code [] E = sha1_hex [] \<and>
   gen_ver_code [] E = ''da39a3ee5e6b4b0d3255bfef95601890afd80709''"
proof -
  have "gen_ver_code [] E = sha1_hex []"
    by (simp add: gen_ver_code_def)
  then show ?thesis
    by (simp add: sha1_hex_empty)
qed

text \<open>
  C4 (as the code has it): \<open>gen_ver_code\<close> is the SHA-1 hex digest of the separator-free
  concatenation of the sorted hashes that are not excluded, every occurrence kept. It
  depends only on the multiset of its input (so not on the order), and appending copies
  of excluded hashes does not change it; a repeated hash that is not excluded is digested
  as often as it occurs.
\<close>

theorem gen_ver_code_multiset:
  "gen_ver_code hs E =
     sha1_hex (concat (sort (filter (\<lambda>h. h \<notin> (case E of None \<Rightarrow> {} | Some e \<Rightarrow> e)) hs)))
   \<and> (mset hs' = mset hs \<longrightarrow> gen_ver_code hs' E = gen_ver_code hs E)
   \<and> (set ds \<subseteq> (case E of None \<Rightarrow> {} | Some e \<Rightarrow> e) \<longrightarrow>
        gen_ver_code (hs @ ds) E = gen_ver_code hs E)"
proof (intro conjI impI)
  show "gen_ver_code hs E =
     sha1_hex (concat (sort (filter (\<lambda>h. h \<notin> (case E of None \<Rightarrow> {} | Some e \<Rightarrow> e)) hs)))"
    by (rule gen_ver_code_unfold)
next
  assume "mset hs' = mset hs"
  then show "gen_ver_code hs' E = gen_ver_code hs E"
    by (simp add: gen_ver_code_unfold sort_filter_mset [of hs' hs])
next
  assume sub: "set ds \<subseteq> (case E of None \<Rightarrow> {} | Some e \<Rightarrow> e)"
  have "filter (\<lambda>h. h \<notin> (case E of None \<Rightarrow> {} | Some e \<Rightarrow> e)) ds = []"
    using sub by (auto simp: filter_empty_conv)
  then show "gen_ver_code (hs @ ds) E = gen_ver_code hs E"
    by (simp add: gen_ver_code_unfold)
qed

theorem gen_ver_code_multiset_witness:
  "mset [''b'', ''a''] = mset [''a'', ''b'']
   \<and> set [''c'', ''c''] \<subseteq> {''c''}
   \<and> gen_ver_code [''b'', ''a''] (Some {''c''}) = gen_ver_code [''a'', ''b''] (Some {''c''})
   \<and> gen_ver_code ([''a'', ''b''] @ [''c'', ''c'']) (Some {''c''})
       = gen_ver_code [''a'', ''b''] (Some {''c''})"
  using gen_ver_code_multiset [of "[''a'', ''b'']" "Some {''c''}" "[''b'', ''a'']" "[''c'', ''c'']"]
  by simp

text \<open>
  Two empty files have the same SHA-256 content hash; listed twice it is digested twice,
  and the verification code differs from the one of the single hash.
\<close>

theorem gen_ver_code_duplicates_counterexample:
  "gen_ver_code [''e3b0c44298fc1c149afbf4c8996fb92427ae41e4649b934ca495991b7852b855'',
                 ''e3b0c44298fc1c149afbf4c8996fb92427ae41e4649b934ca495991b7852b855''] (Some {})
   \<noteq> gen_ver_code [''e3b0c44298fc1c149afbf4c8996fb92427ae41e4649b934ca495991b7852b855''] (Some {})"
  by code_simp

subsection \<open>Archive classification\<close>




subsection \<open>The scope of \<open>tempextract\<close>\<close>

lemma at_or_below_refl: "at_or_below d d"
  by (simp add: at_or_below_def)

lemma remove_tree_again: "remove_tree d ((d, n) # remove_tree d fs) = remove_tree d fs"
  by (induction fs) (auto simp: remove_tree_def at_or_below_refl)

lemma map_of_remove_tree: "at_or_below d p \<Longrightarrow> map_of (remove_tree d fs) p = None"
  by (induction fs) (auto simp: remove_tree_def)

lemma rmtree_denied_new_dir: "\<not> rmtree_denied d ((d, Dir True) # remove_tree d fs)"
  by (auto simp: rmtree_denied_def remove_tree_def list_ex_iff)

text \<open>On the directory \<open>mkdtemp\<close> has just made, \<open>rmtree\<close> cannot fail.\<close>

lemma rmtree_fresh_dir:
  "rmtree w d ((d, Dir True) # remove_tree d fs) = (None, remove_tree d fs)"
  using rmtree_denied_new_dir [of d fs] by (simp add: rmtree_def remove_tree_again)

lemma rmtree_success:
  assumes "fst (rmtree w d fs) = None" and "at_or_below d p"
  shows "map_of (snd (rmtree w d fs)) p = None"
  using assms by (auto simp: rmtree_def map_of_remove_tree split: if_splits)

lemma tempextract_finally_Some:
  "tempextract_finally w (Some d) s =
     (fst (rmtree w d (files s)),
      s\<lparr>files := snd (rmtree w d (files s)), events := events s @ [Rmtree d]\<rparr>)"
  by (simp add: tempextract_finally_def split: prod.splits)

lemma tempextract_try_shape:
  assumes "mkdtemp w = Inr tmp" and "tempextract_try w path s = (r, b, s1)"
  shows "b = Some tmp \<and> (\<exists>mid. events s1 = events s @ [Mkdtemp tmp] @ mid \<and> set mid \<subseteq> {Extractall tmp})"
  using assms
  by (auto simp: tempextract_try_def safe_extract_def Let_def
           split: if_splits option.splits prod.splits sum.splits)

text \<open>
  C2 (as the code has it): once \<open>mkdtemp\<close> has allocated the extraction root, every exit
  of the scope (the extraction succeeded and the body returned, the body raised, the
  validation or the extraction failed, the classification raised, the input was no
  archive) ends with one call of \<open>rmtree\<close> on the root, the last thing the function does.
  When that call succeeds, nothing at or below the root is left; when it fails, its
  exception is the one that leaves the scope.
\<close>

theorem tempextract_rmtree_once:
  assumes "mkdtemp w = Inr tmp"
  shows "(\<exists>mid. events (snd (tempextract w path body s))
                   = events s @ [Mkdtemp tmp] @ mid @ [Rmtree tmp]
                 \<and> set mid \<subseteq> {Extractall tmp})
       \<and> files (snd (tempextract w path body s))
           = snd (rmtree w tmp (before_finally w path body s))
       \<and> (fst (rmtree w tmp (before_finally w path body s)) = None \<longrightarrow>
            (\<forall>p. at_or_below tmp p \<longrightarrow> map_of (files (snd (tempextract w path body s))) p = None))
       \<and> (\<forall>e. fst (rmtree w tmp (before_finally w path body s)) = Some e \<longrightarrow>
                fst (tempextract w path body s) = Inl e)"
proof -
  obtain r b s1 where t: "tempextract_try w path s = (r, b, s1)"
    by (cases "tempextract_try w path s") auto
  from tempextract_try_shape [OF assms t]
  obtain mid where b: "b = Some tmp"
    and ev: "events s1 = events s @ [Mkdtemp tmp] @ mid" and mid: "set mid \<subseteq> {Extractall tmp}"
    by blast
  define fs0 where "fs0 = before_finally w path body s"
  have fin: "snd (tempextract w path body s)
               = s1\<lparr>files := snd (rmtree w tmp fs0), events := events s1 @ [Rmtree tmp]\<rparr>"
    and err: "\<And>e. fst (rmtree w tmp fs0) = Some e \<Longrightarrow> fst (tempextract w path body s) = Inl e"
    using t b
    by (auto simp: fs0_def before_finally_def tempextract_def tempextract_finally_Some
             split: sum.splits prod.splits option.splits)
  have 1: "\<exists>mid. events (snd (tempextract w path body s))
                   = events s @ [Mkdtemp tmp] @ mid @ [Rmtree tmp]
                 \<and> set mid \<subseteq> {Extractall tmp}"
    using fin ev mid by simp
  have 2: "files (snd (tempextract w path body s)) = snd (rmtree w tmp fs0)"
    using fin by simp
  have 3: "fst (rmtree w tmp fs0) = None \<longrightarrow>
            (\<forall>p. at_or_below tmp p \<longrightarrow> map_of (files (snd (tempextract w path body s))) p = None)"
    using 2 by (simp add: rmtree_success)
  from 1 2 3 err show ?thesis
    unfolding fs0_def by blast
qed

theorem tempextract_rmtree_once_witness:
  "mkdtemp (demo_world True False [\<lparr>name = ''a.txt'', payload = ''A'', kind = RegularFile\<rparr>,
                                   \<lparr>name = ''dir/b.txt'', payload = ''B'', kind = RegularFile\<rparr>])
     = Inr ''/tmp/tmpk3v9xq1a''
   \<and> fst (rmtree
         (demo_world True False [\<lparr>name = ''a.txt'', payload = ''A'', kind = RegularFile\<rparr>,
                                 \<lparr>name = ''dir/b.txt'', payload = ''B'', kind = RegularFile\<rparr>])
         ''/tmp/tmpk3v9xq1a''
         (before_finally
            (demo_world True False [\<lparr>name = ''a.txt'', payload = ''A'', kind = RegularFile\<rparr>,
                                    \<lparr>name = ''dir/b.txt'', payload = ''B'', kind = RegularFile\<rparr>])
            ''pkg.tar'' (\<lambda>v fs. (Inl (OSError ''scan failed'') :: error + unit, fs)) demo_state))
       = None
   \<and> at_or_below ''/tmp/tmpk3v9xq1a'' ''/tmp/tmpk3v9xq1a/dir/b.txt''
   \<and> map_of (files (snd (tempextract
         (demo_world True False [\<lparr>name = ''a.txt'', payload = ''A'', kind = RegularFile\<rparr>,
                                 \<lparr>name = ''dir/b.txt'', payload = ''B'', kind = RegularFile\<rparr>])
         ''pkg.tar'' (\<lambda>v fs. (Inl (OSError ''scan failed'') :: error + unit, fs)) demo_state)))
       ''/tmp/tmpk3v9xq1a/dir/b.txt'' = None
   \<and> events (snd (tempextract
         (demo_world True False [\<lparr>name = ''a.txt'', payload = ''A'', kind = RegularFile\<rparr>,
                                 \<lparr>name = ''dir/b.txt'', payload = ''B'', kind = RegularFile\<rparr>])
         ''pkg.tar'' (\<lambda>v fs. (Inl (OSError ''scan failed'') :: error + unit, fs)) demo_state))
       = [Mkdtemp ''/tmp/tmpk3v9xq1a'', Extractall ''/tmp/tmpk3v9xq1a'', Rmtree ''/tmp/tmpk3v9xq1a'']
   \<and> fst (rmtree
         (demo_world True False [\<lparr>name = ''ro'', payload = [], kind = Directory False\<rparr>,
                                 \<lparr>name = ''ro/f'', payload = ''F'', kind = RegularFile\<rparr>])
         ''/tmp/tmpk3v9xq1a''
         (before_finally
            (demo_world True False [\<lparr>name = ''ro'', payload = [], kind = Directory False\<rparr>,
                                    \<lparr>name = ''ro/f'', payload = ''F'', kind = RegularFile\<rparr>])
            ''pkg.tar'' (\<lambda>v fs. (Inr (), fs)) demo_state))
       = Some (OSError ''Permission denied'')
   \<and> fst (tempextract
         (demo_world True False [\<lparr>name = ''ro'', payload = [], kind = Directory False\<rparr>,
                                 \<lparr>name = ''ro/f'', payload = ''F'', kind = RegularFile\<rparr>])
         ''pkg.tar'' (\<lambda>v fs. (Inr (), fs)) demo_state)
       = Inl (OSError ''Permission denied'')"
proof -
  let ?w = "demo_world True False [\<lparr>name = ''a.txt'', payload = ''A'', kind = RegularFile\<rparr>,
                                   \<lparr>name = ''dir/b.txt'', payload = ''B'', kind = RegularFile\<rparr>]"
  let ?body = "\<lambda>(v :: path \<times> string list) (fs :: filesystem).
                 (Inl (OSError ''scan failed'') :: error + unit, fs)"
  let ?w' = "demo_world True False [\<lparr>name = ''ro'', payload = [], kind = Directory False\<rparr>,
                                    \<lparr>name = ''ro/f'', payload = ''F'', kind = RegularFile\<rparr>]"
  let ?body' = "\<lambda>(v :: path \<times> string list) (fs :: filesystem). (Inr () :: error + unit, fs)"
  have m: "mkdtemp ?w = Inr ''/tmp/tmpk3v9xq1a''"
    by (simp add: demo_world_def)
  have m': "mkdtemp ?w' = Inr ''/tmp/tmpk3v9xq1a''"
    by (simp add: demo_world_def)
  have ok: "fst (rmtree ?w ''/tmp/tmpk3v9xq1a'' (before_finally ?w ''pkg.tar'' ?body demo_state))
              = None"
    by code_simp
  have u: "at_or_below ''/tmp/tmpk3v9xq1a'' ''/tmp/tmpk3v9xq1a/dir/b.txt''"
    by (simp add: at_or_below_def startswith_def)
  have f: "map_of (files (snd (tempextract ?w ''pkg.tar'' ?body demo_state)))
             ''/tmp/tmpk3v9xq1a/dir/b.txt'' = None"
    using tempextract_rmtree_once [OF m, of "''pkg.tar''" ?body demo_state] ok u by blast
  have e: "events (snd (tempextract ?w ''pkg.tar'' ?body demo_state))
       = [Mkdtemp ''/tmp/tmpk3v9xq1a'', Extractall ''/tmp/tmpk3v9xq1a'', Rmtree ''/tmp/tmpk3v9xq1a'']"
    by code_simp
  have bad: "fst (rmtree ?w' ''/tmp/tmpk3v9xq1a''
                    (before_finally ?w' ''pkg.tar'' ?body' demo_state))
               = Some (OSError ''Permission denied'')"
    by code_simp
  have g: "fst (tempextract ?w' ''pkg.tar'' ?body' demo_state) = Inl (OSError ''Permission denied'')"
    using tempextract_rmtree_once [OF m', of "''pkg.tar''" ?body' demo_state] bad by blast
  show ?thesis using m ok u f e bad g by simp
qed

text \<open>
  A tar archive with a directory \<open>ro\<close> that its owner may not write to, and a file
  \<open>ro/f\<close> in it: the extraction succeeds and the body returns, \<open>rmtree\<close> cannot unlink the
  file, the scope ends with its exception, and the root and the file are still there.
\<close>

theorem tempextract_cleanup_fails_counterexample:
  "fst (tempextract
         (demo_world True False [\<lparr>name = ''ro'', payload = [], kind = Directory False\<rparr>,
                                 \<lparr>name = ''ro/f'', payload = ''F'', kind = RegularFile\<rparr>])
         ''pkg.tar'' (\<lambda>v fs. (Inr (), fs)) demo_state)
     = Inl (OSError ''Permission denied'')
   \<and> map_of (files (snd (tempextract
         (demo_world True False [\<lparr>name = ''ro'', payload = [], kind = Directory False\<rparr>,
                                 \<lparr>name = ''ro/f'', payload = ''F'', kind = RegularFile\<rparr>])
         ''pkg.tar'' (\<lambda>v fs. (Inr (), fs)) demo_state)))
       ''/tmp/tmpk3v9xq1a'' = Some (Dir True)
   \<and> map_of (files (snd (tempextract
         (demo_world True False [\<lparr>name = ''ro'', payload = [], kind = Directory False\<rparr>,
                                 \<lparr>name = ''ro/f'', payload = ''F'', kind = RegularFile\<rparr>])
         ''pkg.tar'' (\<lambda>v fs. (Inr (), fs)) demo_state)))
       ''/tmp/tmpk3v9xq1a/ro/f'' = Some (File ''F'')
   \<and> at_or_below ''/tmp/tmpk3v9xq1a'' ''/tmp/tmpk3v9xq1a/ro/f''"
  by code_simp

text \<open>
  C3 (as the code has it): for a path that is neither a tar nor a zip archive,
  \<open>tempextract\<close> raises the \<open>TypeError\<close> and never runs the body; the temporary directory
  was allocated before the classification and is removed again before the exception
  leaves, so none is left.
\<close>

theorem tempextract_not_archive:
  assumes "archive_type w path = Inr None" and "mkdtemp w = Inr tmp"
  shows "tempextract w path body s =
           (Inl (TypeError (path @ '' is not an archive file'')),
            s\<lparr>files := remove_tree tmp (files s),
              events := events s @ [Mkdtemp tmp, Rmtree tmp]\<rparr>)"
  using assms
  by (simp add: tempextract_def tempextract_try_def tempextract_finally_def rmtree_fresh_dir)

theorem tempextract_not_archive_witness:
  "archive_type (demo_world False False []) ''README.md'' = Inr None
   \<and> mkdtemp (demo_world False False []) = Inr ''/tmp/tmpk3v9xq1a''
   \<and> fst (tempextract (demo_world False False []) ''README.md'' (\<lambda>v fs. (Inr (), fs)) demo_state)
       = Inl (TypeError ''README.md is not an archive file'')
   \<and> events (snd (tempextract (demo_world False False []) ''README.md''
                    (\<lambda>v fs. (Inr (), fs)) demo_state))
       = [Mkdtemp ''/tmp/tmpk3v9xq1a'', Rmtree ''/tmp/tmpk3v9xq1a'']
   \<and> map_of (files (snd (tempextract (demo_world False False []) ''README.md''
                    (\<lambda>v fs. (Inr (), fs)) demo_state))) ''/tmp/tmpk3v9xq1a'' = None"
proof -
  have a: "archive_type (demo_world False False []) ''README.md'' = Inr None"
    by (simp add: archive_type_def demo_world_def)
  have m: "mkdtemp (demo_world False False []) = Inr ''/tmp/tmpk3v9xq1a''"
    by (simp add: demo_world_def)
  show ?thesis
    using a m tempextract_not_archive [OF a m, of "\<lambda>v fs. (Inr (), fs)" demo_state]
    by (simp add: demo_state_def map_of_remove_tree at_or_below_refl)
qed

text \<open>
  On a file that is no archive the log of the run starts with the allocation of a
  temporary directory.
\<close>

theorem tempextract_not_archive_counterexample:
  "Mkdtemp ''/tmp/tmpk3v9xq1a''
     \<in> set (events (snd (tempextract (demo_world False False []) ''README.md''
                           (\<lambda>v fs. (Inr (), fs)) demo_state)))"
  by code_simp

subsection \<open>The path check of the tar branch\<close>

lemma common_prefix_commute: "common_prefix a b = common_prefix b a"
  by (induction a b rule: common_prefix.induct) (auto split: list.splits)

lemma common_prefix_eq_left: "common_prefix a b = a \<longleftrightarrow> take (length a) b = a"
  by (induction a b rule: common_prefix.induct) auto

lemma os_path_commonprefix_eq: "os_path_commonprefix a b = common_prefix a b"
  by (simp add: os_path_commonprefix_def Let_def min_def max_def common_prefix_commute)

text \<open>
  The test of \<open>is_within_directory\<close> is a test on characters: the normalised directory is
  a prefix of the normalised target as a string.
\<close>

lemma is_within_directory_iff:
  "is_within_directory wd directory target
     \<longleftrightarrow> startswith (os_path_abspath wd target) (os_path_abspath wd directory)"
  by (auto simp: is_within_directory_def Let_def os_path_commonprefix_eq common_prefix_eq_left
                 startswith_def)

lemma check_members_rejects:
  assumes "\<exists>m \<in> set ms. \<not> is_within_directory wd root (os_path_join root (name m))"
  shows "check_members wd root ms = Some (Exception ''Attempted Path Traversal in Tar File'')"
  using assms by (induction ms) (auto simp: Let_def)

lemma check_members_accepts:
  assumes "\<forall>m \<in> set ms. is_within_directory wd root (os_path_join root (name m))"
  shows "check_members wd root ms = None"
  using assms by (induction ms) (auto simp: Let_def)

text \<open>
  What the tar branch does reject: when the test fails for some member, the exception is
  raised before \<open>extractall\<close> is called, nothing is written, and the root is removed.
\<close>

lemma tempextract_tar_rejects:
  assumes "is_tarfile w path = Inr True" and "mkdtemp w = Inr tmp"
    and "\<exists>m \<in> set (getmembers w path).
           \<not> is_within_directory (cwd w) tmp (os_path_join tmp (name m))"
  shows "tempextract w path body s =
           (Inl (Exception ''Attempted Path Traversal in Tar File''),
            s\<lparr>files := remove_tree tmp (files s),
              events := events s @ [Mkdtemp tmp, Rmtree tmp]\<rparr>)"
  using assms(1,2) check_members_rejects [OF assms(3)]
  by (simp add: tempextract_def tempextract_try_def tempextract_finally_def rmtree_fresh_dir
                archive_type_def safe_extract_def)

lemma tempextract_tar_rejects_dotdot:
  "fst (tempextract (demo_world True False [\<lparr>name = ''ok.txt'', payload = ''A'', kind = RegularFile\<rparr>,
                                            \<lparr>name = ''../../etc/passwd'', payload = ''X'', kind = RegularFile\<rparr>])
          ''pkg.tar'' (\<lambda>v fs. (Inr (), fs)) demo_state)
     = Inl (Exception ''Attempted Path Traversal in Tar File'')
   \<and> fst (tempextract (demo_world True False [\<lparr>name = ''/etc/passwd'', payload = ''X'', kind = RegularFile\<rparr>])
          ''pkg.tar'' (\<lambda>v fs. (Inr (), fs)) demo_state)
     = Inl (Exception ''Attempted Path Traversal in Tar File'')"
  by code_simp

text \<open>
  C1, at two archives. A tar member named \<open>../tmpk3v9xq1a-cache/evil\<close>, extracted into
  \<open>/tmp/tmpk3v9xq1a\<close>, passes the loop of \<open>safe_extract\<close>: the destination
  \<open>/tmp/tmpk3v9xq1a-cache/evil\<close> has the root as a prefix of its characters, though it is
  not below the root. The scope then succeeds, and the file written beside the root
  survives the cleanup. A zip archive with a member \<open>../../etc/passwd\<close> is extracted with
  no check by \<open>tempextract\<close>, and the scope succeeds.
\<close>

theorem tempextract_traversal_not_rejected:
  "check_members ''/work'' ''/tmp/tmpk3v9xq1a''
       [\<lparr>name = ''../tmpk3v9xq1a-cache/evil'', payload = ''X'', kind = RegularFile\<rparr>] = None
   \<and> fst (tempextract (demo_world True False [\<lparr>name = ''../tmpk3v9xq1a-cache/evil'', payload = ''X'', kind = RegularFile\<rparr>])
            ''pkg.tar'' (\<lambda>v fs. (Inr (), fs)) demo_state) = Inr ()
   \<and> map_of (files (snd (tempextract (demo_world True False [\<lparr>name = ''../tmpk3v9xq1a-cache/evil'', payload = ''X'', kind = RegularFile\<rparr>])
            ''pkg.tar'' (\<lambda>v fs. (Inr (), fs)) demo_state))) ''/tmp/tmpk3v9xq1a-cache/evil''
       = Some (File ''X'')
   \<and> \<not> at_or_below ''/tmp/tmpk3v9xq1a'' ''/tmp/tmpk3v9xq1a-cache/evil''
   \<and> fst (tempextract (demo_world False True [\<lparr>name = ''../../etc/passwd'', payload = ''X'', kind = RegularFile\<rparr>])
            ''pkg.zip'' (\<lambda>v fs. (Inr (), fs)) demo_state) = Inr ()"
  by code_simp

subsection \<open>Identifiers\<close>

lemma gen_id_string_unfold:
  "gen_id_string u pre fn h =
     ''SPDXRef'' @ ''-'' @ pre @ ''-''
     @ file_name_for_id (case fn of None \<Rightarrow> slice 9 39 u
                         | Some f \<Rightarrow> if f = [] then slice 9 39 u else f)
     @ ''-'' @ (case h of None \<Rightarrow> slice 24 28 u | Some x \<Rightarrow> take 4 x) @ ''-'' @ take 8 u"
  by (simp add: gen_id_string_def)

lemma file_name_for_id_chars:
  "c \<in> set (file_name_for_id f) \<Longrightarrow> alnum c \<or> c = CHR ''_''"
  by (auto simp: file_name_for_id_def dest!: in_set_takeD)

lemma append_tail_neq:
  assumes "length ys = length zs" and "ys \<noteq> zs"
  shows "xs @ ys \<noteq> ws @ zs"
  using assms by (simp add: append_eq_append_conv)

lemma gen_id_string_tail: "\<exists>A. gen_id_string u pre fn h = A @ take 8 u"
proof
  show "gen_id_string u pre fn h =
     (''SPDXRef'' @ ''-'' @ pre @ ''-''
      @ file_name_for_id (case fn of None \<Rightarrow> slice 9 39 u
                          | Some f \<Rightarrow> if f = [] then slice 9 39 u else f)
      @ ''-'' @ (case h of None \<Rightarrow> slice 24 28 u | Some x \<Rightarrow> take 4 x) @ ''-'') @ take 8 u"
    by (simp add: gen_id_string_unfold)
qed

text \<open>
  C9 (as the code has it): the identifier is the hyphen-join of \<open>SPDXRef\<close>, the prefix,
  the sanitized fragment and the suffix; the suffix is the first four characters of the
  hash (characters 24 to 27 of the random string when the hash is absent), a hyphen, and
  the first eight characters of the random string. The fragment is the base name with
  every character outside \<open>A-Za-z0-9\<close> replaced by an underscore, cut to 20 characters;
  it is the fragment of the file name when one is given and not empty, and of characters
  9 onwards of the random string otherwise. Two calls with the same arguments give
  different identifiers whenever their random strings differ in the first eight
  characters.
\<close>

theorem gen_id_string_shape:
  "gen_id_string u pre fn h =
     ''SPDXRef'' @ ''-'' @ pre @ ''-''
     @ file_name_for_id (case fn of None \<Rightarrow> slice 9 39 u
                         | Some f \<Rightarrow> if f = [] then slice 9 39 u else f)
     @ ''-'' @ (case h of None \<Rightarrow> slice 24 28 u | Some x \<Rightarrow> take 4 x) @ ''-'' @ take 8 u
   \<and> (f \<noteq> [] \<longrightarrow>
        gen_id_string u pre (Some f) h =
          ''SPDXRef'' @ ''-'' @ pre @ ''-'' @ file_name_for_id f
          @ ''-'' @ (case h of None \<Rightarrow> slice 24 28 u | Some x \<Rightarrow> take 4 x) @ ''-'' @ take 8 u)
   \<and> file_name_for_id f
        = take 20 (map (\<lambda>c. if alnum c then c else CHR ''_'') (os_path_basename f))
   \<and> length (file_name_for_id f) \<le> 20
   \<and> (\<forall>c \<in> set (file_name_for_id f). alnum c \<or> c = CHR ''_'')
   \<and> (8 \<le> length u \<and> 8 \<le> length u' \<and> take 8 u \<noteq> take 8 u' \<longrightarrow>
        gen_id_string u pre fn h \<noteq> gen_id_string u' pre fn h)"
proof (intro conjI impI ballI)
  show "gen_id_string u pre fn h =
     ''SPDXRef'' @ ''-'' @ pre @ ''-''
     @ file_name_for_id (case fn of None \<Rightarrow> slice 9 39 u
                         | Some f \<Rightarrow> if f = [] then slice 9 39 u else f)
     @ ''-'' @ (case h of None \<Rightarrow> slice 24 28 u | Some x \<Rightarrow> take 4 x) @ ''-'' @ take 8 u"
    by (rule gen_id_string_unfold)
next
  assume "f \<noteq> []"
  then show "gen_id_string u pre (Some f) h =
          ''SPDXRef'' @ ''-'' @ pre @ ''-'' @ file_name_for_id f
          @ ''-'' @ (case h of None \<Rightarrow> slice 24 28 u | Some x \<Rightarrow> take 4 x) @ ''-'' @ take 8 u"
    by (simp add: gen_id_string_unfold)
next
  show "file_name_for_id f
        = take 20 (map (\<lambda>c. if alnum c then c else CHR ''_'') (os_path_basename f))"
    by (simp add: file_name_for_id_def)
next
  show "length (file_name_for_id f) \<le> 20"
    by (simp add: file_name_for_id_def)
next
  fix c assume "c \<in> set (file_name_for_id f)"
  then show "alnum c \<or> c = CHR ''_''"
    by (rule file_name_for_id_chars)
next
  assume a: "8 \<le> length u \<and> 8 \<le> length u' \<and> take 8 u \<noteq> take 8 u'"
  obtain A where A: "gen_id_string u pre fn h = A @ take 8 u"
    using gen_id_string_tail by blast
  obtain B where B: "gen_id_string u' pre fn h = B @ take 8 u'"
    using gen_id_string_tail by blast
  have "length (take 8 u) = length (take 8 u')"
    using a by simp
  then have "A @ take 8 u \<noteq> B @ take 8 u'"
    using a by (intro append_tail_neq) auto
  then show "gen_id_string u pre fn h \<noteq> gen_id_string u' pre fn h"
    by (simp only: A B not_False_eq_True)
qed

theorem gen_id_string_shape_witness:
  "''src/util.py'' \<noteq> []
   \<and> gen_id_string ''3f2a9c1e-7b4d-4e8a-9c3f-1a2b3c4d5e6f'' ''file'' (Some ''src/util.py'')
        (Some ''ba7816bf8f01cfea414140de5dae2223b00361a396177a9cb410ff61f20015ad'')
      = ''SPDXRef-file-util_py-ba78-3f2a9c1e''
   \<and> CHR ''_'' \<in> set (file_name_for_id ''src/util.py'')
   \<and> (alnum CHR ''_'' \<or> CHR ''_'' = CHR ''_'')
   \<and> 8 \<le> length ''3f2a9c1e-7b4d-4e8a-9c3f-1a2b3c4d5e6f''
   \<and> 8 \<le> length ''90c1d2e3-0d6e-4b1f-8a7c-6f5e4d3c2b1a''
   \<and> take 8 ''3f2a9c1e-7b4d-4e8a-9c3f-1a2b3c4d5e6f'' \<noteq> take 8 ''90c1d2e3-0d6e-4b1f-8a7c-6f5e4d3c2b1a''
   \<and> gen_id_string ''3f2a9c1e-7b4d-4e8a-9c3f-1a2b3c4d5e6f'' ''file'' (Some ''src/util.py'')
        (Some ''ba7816bf8f01cfea414140de5dae2223b00361a396177a9cb410ff61f20015ad'')
      \<noteq> gen_id_string ''90c1d2e3-0d6e-4b1f-8a7c-6f5e4d3c2b1a'' ''file'' (Some ''src/util.py'')
        (Some ''ba7816bf8f01cfea414140de5dae2223b00361a396177a9cb410ff61f20015ad'')"
proof -
  let ?u = "''3f2a9c1e-7b4d-4e8a-9c3f-1a2b3c4d5e6f''"
  let ?u' = "''90c1d2e3-0d6e-4b1f-8a7c-6f5e4d3c2b1a''"
  let ?h = "Some ''ba7816bf8f01cfea414140de5dae2223b00361a396177a9cb410ff61f20015ad''"
  note t = gen_id_string_shape [of ?u "''file''" "Some ''src/util.py''" ?h "''src/util.py''" ?u']
  have v: "gen_id_string ?u ''file'' (Some ''src/util.py'') ?h = ''SPDXRef-file-util_py-ba78-3f2a9c1e''"
    by code_simp
  have m: "CHR ''_'' \<in> set (file_name_for_id ''src/util.py'')"
    by code_simp
  have hyp: "8 \<le> length ?u \<and> 8 \<le> length ?u' \<and> take 8 ?u \<noteq> take 8 ?u'"
    by code_simp
  from t hyp have ne: "gen_id_string ?u ''file'' (Some ''src/util.py'') ?h
      \<noteq> gen_id_string ?u' ''file'' (Some ''src/util.py'') ?h"
    by blast
  from t m have "alnum CHR ''_'' \<or> CHR ''_'' = CHR ''_''"
    by blast
  with v m hyp ne show ?thesis
    by simp
qed

text \<open>
  Two different random strings that agree on their first eight characters give the same
  identifier for a named file with a hash; and with no file name the fragment comes from
  the random string, so it changes from call to call.
\<close>

theorem gen_id_string_unique_counterexample:
  "''3f2a9c1e-7b4d-4e8a-9c3f-1a2b3c4d5e6f'' \<noteq> ''3f2a9c1e-0d6e-4b1f-8a7c-6f5e4d3c2b1a''
   \<and> gen_id_string ''3f2a9c1e-7b4d-4e8a-9c3f-1a2b3c4d5e6f'' ''file'' (Some ''src/util.py'')
        (Some ''ba7816bf8f01cfea414140de5dae2223b00361a396177a9cb410ff61f20015ad'')
     = gen_id_string ''3f2a9c1e-0d6e-4b1f-8a7c-6f5e4d3c2b1a'' ''file'' (Some ''src/util.py'')
        (Some ''ba7816bf8f01cfea414140de5dae2223b00361a396177a9cb410ff61f20015ad'')
   \<and> gen_id_string ''3f2a9c1e-7b4d-4e8a-9c3f-1a2b3c4d5e6f'' ''element'' None None
     = ''SPDXRef-element-7b4d_4e8a_9c3f_1a2b3-1a2b-3f2a9c1e''
   \<and> gen_id_string ''90c1d2e3-0d6e-4b1f-8a7c-6f5e4d3c2b1a'' ''element'' None None
     = ''SPDXRef-element-0d6e_4b1f_8a7c_6f5e4-6f5e-90c1d2e3''"
  by code_simp

subsection \<open>Directory hashes\<close>

lemma sort_mset_eq:
  fixes xs ys :: "'a::linorder list"
  assumes "mset xs = mset ys"
  shows "sort xs = sort ys"
  by (rule properties_for_sort) (simp_all add: assms)

lemma hashes_comprehension_walk:
  "hashes_comprehension (env\<lparr>os_walk := w\<rparr>) ps d = hashes_comprehension env ps d"
  by (induction ps arbitrary: d) (auto simp: sha256_def split: sum.splits)

lemma hashes_comprehension_map_of:
  assumes "hashes_comprehension env ps d = Inr hs"
  shows "map_of hs p =
           (if p \<in> set ps \<and> isfile env p
            then (case sha256 env p of Inl e \<Rightarrow> None | Inr h \<Rightarrow> Some h)
            else map_of d p)"
  using assms
proof (induction ps arbitrary: d)
  case Nil
  then show ?case by simp
next
  case (Cons a ps)
  show ?case
  proof (cases "isfile env a")
    case False
    with Cons show ?thesis by auto
  next
    case True
    with Cons.prems obtain h where h: "sha256 env a = Inr h"
      and rest: "hashes_comprehension env ps (AList.update a h d) = Inr hs"
      by (auto split: sum.splits)
    from Cons.IH [OF rest] show ?thesis
      using True h by (auto simp: update_conv')
  qed
qed

lemma hashes_comprehension_returns:
  "(\<exists>hs. hashes_comprehension env ps d = Inr hs)
     \<longleftrightarrow> (\<forall>p \<in> set ps. isfile env p \<longrightarrow> (\<exists>b. read_file env p = Inr b))"
proof (induction ps arbitrary: d)
  case Nil
  then show ?case by simp
next
  case (Cons a ps)
  then show ?case
    by (cases "read_file env a") (auto simp: sha256_def)
qed

text \<open>
  \<open>get_dir_hashes\<close> returns exactly when every regular file under the root can be read.
\<close>

lemma get_dir_hashes_returns:
  "(\<exists>r. get_dir_hashes env path E = Inr r)
     \<longleftrightarrow> (\<forall>p \<in> set (allpaths env path). isfile env p \<longrightarrow> (\<exists>b. read_file env p = Inr b))"
proof -
  have "(\<exists>r. get_dir_hashes env path E = Inr r)
          \<longleftrightarrow> (\<exists>hs. hashes_comprehension env (sort (allpaths env path)) [] = Inr hs)"
    by (auto simp: get_dir_hashes_def Let_def split: sum.splits)
  then show ?thesis
    by (simp add: hashes_comprehension_returns)
qed

text \<open>
  A run on the small tree with the content hash of the empty file excluded; the values
  are those of the standard library's digests.
\<close>

lemma get_dir_hashes_demo_excluding:
  "get_dir_hashes
     (demo_tree [(''/pkg'', [''src''], [''c.txt'', ''a.txt'']), (''/pkg/src'', [], [''b.c''])])
     ''/pkg'' (Some {''e3b0c44298fc1c149afbf4c8996fb92427ae41e4649b934ca495991b7852b855''})
   = Inr (''85f2aab80b0f02bc6045e491c756fa34c232d65a'',
          [(''/pkg/a.txt'', ''ba7816bf8f01cfea414140de5dae2223b00361a396177a9cb410ff61f20015ad''),
           (''/pkg/c.txt'', ''ba7816bf8f01cfea414140de5dae2223b00361a396177a9cb410ff61f20015ad''),
           (''/pkg/src/b.c'', ''e3b0c44298fc1c149afbf4c8996fb92427ae41e4649b934ca495991b7852b855'')],
          ''8c6bdb94d5ef869b1e9b0ddefebde5a6ce474265'')"
  by code_simp

text \<open>
  C5: \<open>get_dir_hashes\<close> is a function of the tree and the exclusion set, and the order
  in which the walk yields the paths does not matter: two walks that yield the same
  paths give the same result, in all three components (or the same exception).
\<close>

theorem get_dir_hashes_order_independent:
  assumes "mset (allpaths (env\<lparr>os_walk := walk'\<rparr>) path) = mset (allpaths env path)"
  shows "get_dir_hashes (env\<lparr>os_walk := walk'\<rparr>) path E = get_dir_hashes env path E"
proof -
  have "sort (allpaths (env\<lparr>os_walk := walk'\<rparr>) path) = sort (allpaths env path)"
    using assms by (rule sort_mset_eq)
  then show ?thesis
    by (simp add: get_dir_hashes_def hashes_comprehension_walk Let_def split: sum.splits)
qed

theorem get_dir_hashes_order_independent_witness:
  "mset (allpaths ((demo_tree [(''/pkg'', [''src''], [''c.txt'', ''a.txt'']), (''/pkg/src'', [], [''b.c''])])
                     \<lparr>os_walk := \<lambda>_. [(''/pkg'', [''src''], [''a.txt'', ''c.txt'']),
                                        (''/pkg/src'', [], [''b.c''])]\<rparr>) ''/pkg'')
     = mset (allpaths (demo_tree [(''/pkg'', [''src''], [''c.txt'', ''a.txt'']),
                                  (''/pkg/src'', [], [''b.c''])]) ''/pkg'')
   \<and> get_dir_hashes
         ((demo_tree [(''/pkg'', [''src''], [''c.txt'', ''a.txt'']), (''/pkg/src'', [], [''b.c''])])
            \<lparr>os_walk := \<lambda>_. [(''/pkg'', [''src''], [''a.txt'', ''c.txt'']),
                               (''/pkg/src'', [], [''b.c''])]\<rparr>) ''/pkg'' None
     = get_dir_hashes
         (demo_tree [(''/pkg'', [''src''], [''c.txt'', ''a.txt'']), (''/pkg/src'', [], [''b.c''])])
         ''/pkg'' None"
proof -
  let ?T = "demo_tree [(''/pkg'', [''src''], [''c.txt'', ''a.txt'']), (''/pkg/src'', [], [''b.c''])]"
  let ?w = "\<lambda>_ :: path. [(''/pkg'', [''src''], [''a.txt'', ''c.txt'']), (''/pkg/src'', [], [''b.c''])]"
  have h: "mset (allpaths (?T\<lparr>os_walk := ?w\<rparr>) ''/pkg'') = mset (allpaths ?T ''/pkg'')"
    by (simp add: allpaths_def demo_tree_def)
  from h get_dir_hashes_order_independent [OF h, of None] show ?thesis
    by blast
qed

text \<open>
  C7: when \<open>get_dir_hashes\<close> returns, its map has an entry for every regular file under
  the root, the SHA-256 hex digest of the file's bytes, and for no other path; the map is
  the same for every exclusion set, which the function only reads.
\<close>

theorem get_dir_hashes_map_unfiltered:
  assumes "get_dir_hashes env path E = Inr (vc, hashes, dc)"
  shows "(p \<in> set (allpaths env path) \<and> isfile env p \<longrightarrow>
            (\<exists>b. read_file env p = Inr b \<and> map_of hashes p = Some (sha256_hex b)))
       \<and> (map_of hashes p \<noteq> None \<longrightarrow> p \<in> set (allpaths env path) \<and> isfile env p)
       \<and> (\<exists>vc' dc'. get_dir_hashes env path E' = Inr (vc', hashes, dc'))"
proof -
  from assms have hc: "hashes_comprehension env (sort (allpaths env path)) [] = Inr hashes"
    by (auto simp: get_dir_hashes_def Let_def split: sum.splits)
  note m = hashes_comprehension_map_of [OF hc, of p]
  have ret: "\<forall>q \<in> set (sort (allpaths env path)). isfile env q \<longrightarrow> (\<exists>b. read_file env q = Inr b)"
    using hc hashes_comprehension_returns [of env "sort (allpaths env path)" "[]"] by blast
  have 1: "p \<in> set (allpaths env path) \<and> isfile env p \<longrightarrow>
            (\<exists>b. read_file env p = Inr b \<and> map_of hashes p = Some (sha256_hex b))"
    using m ret by (auto simp: sha256_def)
  have 2: "map_of hashes p \<noteq> None \<longrightarrow> p \<in> set (allpaths env path) \<and> isfile env p"
    using m by (auto split: if_splits)
  have 3: "\<exists>vc' dc'. get_dir_hashes env path E' = Inr (vc', hashes, dc')"
    using hc by (simp add: get_dir_hashes_def Let_def)
  from 1 2 3 show ?thesis by blast
qed

theorem get_dir_hashes_map_unfiltered_witness:
  "get_dir_hashes
     (demo_tree [(''/pkg'', [''src''], [''c.txt'', ''a.txt'']), (''/pkg/src'', [], [''b.c''])])
     ''/pkg'' (Some {''e3b0c44298fc1c149afbf4c8996fb92427ae41e4649b934ca495991b7852b855''})
   = Inr (''85f2aab80b0f02bc6045e491c756fa34c232d65a'',
          [(''/pkg/a.txt'', ''ba7816bf8f01cfea414140de5dae2223b00361a396177a9cb410ff61f20015ad''),
           (''/pkg/c.txt'', ''ba7816bf8f01cfea414140de5dae2223b00361a396177a9cb410ff61f20015ad''),
           (''/pkg/src/b.c'', ''e3b0c44298fc1c149afbf4c8996fb92427ae41e4649b934ca495991b7852b855'')],
          ''8c6bdb94d5ef869b1e9b0ddefebde5a6ce474265'')
   \<and> ''/pkg/src/b.c'' \<in> set (allpaths
         (demo_tree [(''/pkg'', [''src''], [''c.txt'', ''a.txt'']), (''/pkg/src'', [], [''b.c''])])
         ''/pkg'')
   \<and> isfile (demo_tree [(''/pkg'', [''src''], [''c.txt'', ''a.txt'']), (''/pkg/src'', [], [''b.c''])])
         ''/pkg/src/b.c''
   \<and> read_file (demo_tree [(''/pkg'', [''src''], [''c.txt'', ''a.txt'']), (''/pkg/src'', [], [''b.c''])])
         ''/pkg/src/b.c'' = Inr []
   \<and> map_of
         [(''/pkg/a.txt'', ''ba7816bf8f01cfea414140de5dae2223b00361a396177a9cb410ff61f20015ad''),
          (''/pkg/c.txt'', ''ba7816bf8f01cfea414140de5dae2223b00361a396177a9cb410ff61f20015ad''),
          (''/pkg/src/b.c'', ''e3b0c44298fc1c149afbf4c8996fb92427ae41e4649b934ca495991b7852b855'')]
         ''/pkg/src/b.c'' = Some (sha256_hex [])"
proof -
  let ?T = "demo_tree [(''/pkg'', [''src''], [''c.txt'', ''a.txt'']), (''/pkg/src'', [], [''b.c''])]"
  have m: "''/pkg/src/b.c'' \<in> set (allpaths ?T ''/pkg'')"
    by (simp add: allpaths_def demo_tree_def os_path_join_def startswith_def)
  have f: "isfile ?T ''/pkg/src/b.c''"
    by (simp add: demo_tree_def)
  have r: "read_file ?T ''/pkg/src/b.c'' = Inr []"
    by (simp add: demo_tree_def)
  from get_dir_hashes_map_unfiltered [OF get_dir_hashes_demo_excluding, of "''/pkg/src/b.c''"] m f r
  show ?thesis
    using get_dir_hashes_demo_excluding by auto
qed



end
